theory Spec2Isabelle
  imports Main
begin

section \<open>Data of the uptime monitor (backend/server.js)\<close>

text \<open>
  The backend handles plain JavaScript objects. Each object shape of the source is a
  record here, with the source's property names. Where nothing else is said, a property
  that is \<^verbatim>\<open>null\<close> or absent is \<open>None\<close>. Statuses are the source's strings \<^verbatim>\<open>'UP'\<close> and \<^verbatim>\<open>'DOWN'\<close>.
  Clock readings (\<^verbatim>\<open>Date.now()\<close>, \<^verbatim>\<open>new Date().toISOString()\<close>) are inputs
  of the functions that take them.
\<close>

text \<open>An entry of \<^verbatim>\<open>sites.json\<close>.\<close>

record site =
  name :: string
  url :: string

text \<open>
  The object returned by \<^verbatim>\<open>checkSite\<close>. The \<^verbatim>\<open>.catch\<close> handler of the
  monitoring cycle builds an object of the same shape with fewer properties.
\<close>

record check_result =
  status :: string
  statusCode :: "int option"
  responseTime :: "int option"
  checkedAt :: string
  error :: "string option"
  errorType :: "string option"

text \<open>An entry of \<^verbatim>\<open>monitoringState\<close>: the site's name and url, then what was last seen.\<close>

record site_state = site +
  lastStatus :: "string option"
  lastCheckedAt :: "string option"
  lastChangedAt :: "string option"
  changeCount :: nat
  lastStatusCode :: "int option"
  lastError :: "string option"

text \<open>
  \<^verbatim>\<open>monitoringState\<close> is a plain object (\<^verbatim>\<open>{}\<close>) used as a table from site names to
  entries, so a lookup \<^verbatim>\<open>monitoringState[n]\<close> that finds no entry goes on to the object
  every plain object inherits from, \<^verbatim>\<open>Object.prototype\<close>. There it finds a function
  under eleven names, \<^verbatim>\<open>Object.prototype\<close> itself under \<^verbatim>\<open>__proto__\<close>, and whatever
  the program has written on \<^verbatim>\<open>Object.prototype\<close>. The functions of the tracker write
  on what a lookup finds: the objects below are the properties they have written on an
  inherited function or on \<^verbatim>\<open>Object.prototype\<close>. \<open>None\<close> is a property that has not
  been written (it reads as \<^verbatim>\<open>undefined\<close>); for the status code and the error, \<open>Some
  None\<close> is \<^verbatim>\<open>null\<close>. The only value ever written to \<^verbatim>\<open>changeCount\<close> there is
  \<^verbatim>\<open>NaN\<close> (\<^verbatim>\<open>undefined++\<close>), so that property is present or not.
\<close>

record inherited_object =
  ownLastStatus :: "string option"
  ownLastCheckedAt :: "string option"
  ownLastStatusCode :: "int option option"
  ownLastError :: "string option option"
  ownChangeCount :: bool
  ownLastChangedAt :: "string option"

text \<open>
  The state of the tracker: the entries \<^verbatim>\<open>initializeMonitoringState\<close> has stored in
  \<^verbatim>\<open>monitoringState\<close> under site names, what has been written on each inherited function
  (by the name it is inherited under), and what has been written on
  \<^verbatim>\<open>Object.prototype\<close>. In an entry, \<^verbatim>\<open>changeCount\<close> is a JavaScript number that only
  ever counts up from zero by one (exactly, below \<open>2^53\<close>), a natural number here.
\<close>

record monitoring_state =
  entries :: "string \<rightharpoonup> site_state"
  onFunctions :: "string \<Rightarrow> inherited_object"
  onPrototype :: inherited_object

text \<open>A \<^verbatim>\<open>changeCount\<close> as read from what a lookup found: a number, \<^verbatim>\<open>NaN\<close>, or \<^verbatim>\<open>undefined\<close>.\<close>

datatype js_count = Count nat | NaN | NoCount

text \<open>
  The object \<^verbatim>\<open>updateMonitoringState\<close> returns on a state change (its constant
  property \<^verbatim>\<open>siteChanged: true\<close> is left out; the property \<^verbatim>\<open>changeCount\<close> of this
  object is \<open>changeNumber\<close>, the name \<open>changeCount\<close> being the field of the entry).
  \<open>None\<close> is \<^verbatim>\<open>undefined\<close>.
\<close>

record state_change =
  siteName :: string
  previousStatus :: "string option"
  newStatus :: string
  changedAt :: "string option"
  changeNumber :: js_count

text \<open>The argument of \<^verbatim>\<open>sendTelegramAlert\<close>, one per call of it.\<close>

record telegram_alert =
  alertSiteName :: string
  alertUrl :: "string option"
  alertNewStatus :: string
  alertPreviousStatus :: "string option"
  alertStatusCode :: "int option"
  alertResponseTime :: "int option"
  alertError :: "string option"
  alertCheckedAt :: string

text \<open>
  What \<^verbatim>\<open>axios.get\<close> does: it resolves with a response of some status code (every
  code resolves, by \<^verbatim>\<open>validateStatus: () => true\<close>), or it rejects with a thrown value.
  A thrown value is an object whose \<^verbatim>\<open>code\<close> and \<^verbatim>\<open>message\<close> are strings or
  missing. The errors of axios and of Node carry a message; JavaScript lets any value be
  thrown.
\<close>

record js_error =
  code :: "string option"
  message :: "string option"

datatype axios_outcome = Response int | Rejected js_error

text \<open>
  One probe as the cycle sees it: the outcome of the request, \<^verbatim>\<open>Date.now()\<close> before
  and after it, the \<^verbatim>\<open>toISOString()\<close> reading taken by \<^verbatim>\<open>checkSite\<close>, and the
  reading taken by the handler that runs when the probe settles (\<^verbatim>\<open>lastChangedAt\<close> in
  \<^verbatim>\<open>updateMonitoringState\<close>, \<^verbatim>\<open>checkedAt\<close> in the \<^verbatim>\<open>.catch\<close> handler).
\<close>

record probe_run =
  outcome :: axios_outcome
  startTime :: int
  endTime :: int
  checkedAtClock :: string
  handlerClock :: string

text \<open>A result of a cycle: \<^verbatim>\<open>{ name: site.name, url: site.url, ...result }\<close>.\<close>

record site_result = site +
  result :: check_result

record summary =
  total :: nat
  up :: nat
  down :: nat

text \<open>The report of a cycle (its constant property \<^verbatim>\<open>monitoringCycle: true\<close> is left out).\<close>

record cycle_report =
  timestamp :: string
  results :: "site_result list"
  stateChanges :: "state_change list"
  reportSummary :: summary

text \<open>
  The answers of \<^verbatim>\<open>GET /api/check\<close>: 200 with the summary and the sites, 400 with a
  message when no site is configured, 500 with the message of the error that was caught.
  The \<^verbatim>\<open>uptime\<close> string of the summary, a percentage printed by \<^verbatim>\<open>toFixed(1)\<close>, is
  left out.
\<close>

datatype api_response =
  Json200 string summary "site_result list"
| Json400 string
| Json500 "string option"

section \<open>The prober: checkSite\<close>

text \<open>\<^verbatim>\<open>String.prototype.includes\<close>: \<open>sub\<close> occurs in \<open>s\<close> as a contiguous part.\<close>

fun includes_str :: "string \<Rightarrow> string \<Rightarrow> bool" where
  "includes_str [] sub = (sub = [])"
| "includes_str (c # cs) sub = (take (length sub) (c # cs) = sub \<or> includes_str cs sub)"

text \<open>The object built at the end of the \<^verbatim>\<open>catch\<close> block of \<^verbatim>\<open>checkSite\<close>.\<close>

definition probe_failed :: "int \<Rightarrow> string \<Rightarrow> string \<Rightarrow> string \<Rightarrow> check_result" where
  "probe_failed elapsed now errorMessage errType =
     \<lparr>status = ''DOWN'', statusCode = None, responseTime = Some elapsed,
      checkedAt = now, error = Some errorMessage, errorType = Some errType\<rparr>"

text \<open>
  The error thrown by \<^verbatim>\<open>error.message.includes(...)\<close> when the thrown value has no
  message: a \<^verbatim>\<open>TypeError\<close>, whose message is the engine's (here the text of V8).
\<close>

definition includes_of_undefined :: js_error where
  "includes_of_undefined =
     \<lparr>code = None, message = Some ''Cannot read properties of undefined (reading 'includes')''\<rparr>"

text \<open>
  \<^verbatim>\<open>checkSite(url, timeout)\<close>, as a function of what the request does and of the clock.
  The promise resolves with a result (\<open>Inr\<close>) or rejects (\<open>Inl\<close>). The tests of the
  \<^verbatim>\<open>catch\<close> block are kept in the source's order; the fourth one reads
  \<^verbatim>\<open>error.message.includes\<close> only when neither certificate code matched.
\<close>

definition checkSite :: "axios_outcome \<Rightarrow> int \<Rightarrow> int \<Rightarrow> string \<Rightarrow> js_error + check_result" where
  "checkSite out start finish now =
     (case out of
        Response c \<Rightarrow>
          Inr \<lparr>status = (if c \<ge> 200 \<and> c < 400 then ''UP'' else ''DOWN''),
               statusCode = Some c, responseTime = Some (finish - start),
               checkedAt = now, error = None, errorType = None\<rparr>
      | Rejected e \<Rightarrow>
          if code e = Some ''ECONNABORTED'' then
            Inr (probe_failed (finish - start) now ''Request timeout (5 seconds)'' ''Timeout'')
          else if code e = Some ''ENOTFOUND'' then
            Inr (probe_failed (finish - start) now ''Domain not found'' ''DNS Error'')
          else if code e = Some ''ECONNREFUSED'' then
            Inr (probe_failed (finish - start) now ''Connection refused'' ''Connection Error'')
          else if code e = Some ''ERR_TLS_CERT_ALTNAME_INVALID'' \<or> code e = Some ''CERT_HAS_EXPIRED'' then
            Inr (probe_failed (finish - start) now
                   ''SSL certificate issue (but connection was made)'' ''SSL Warning'')
          else
            (case message e of
               None \<Rightarrow> Inl includes_of_undefined
             | Some msg \<Rightarrow>
                 if includes_str msg ''certificate'' then
                   Inr (probe_failed (finish - start) now
                          ''SSL certificate issue (but connection was made)'' ''SSL Warning'')
                 else if includes_str msg ''getaddrinfo'' then
                   Inr (probe_failed (finish - start) now ''Network error'' ''Network Error'')
                 else if msg \<noteq> [] then
                   Inr (probe_failed (finish - start) now msg ''Unknown'')
                 else
                   Inr (probe_failed (finish - start) now ''Unknown error'' ''Unknown'')))"

text \<open>\<^verbatim>\<open>checkSite(site.url)\<close> for one probe of a cycle.\<close>

definition probe :: "probe_run \<Rightarrow> js_error + check_result" where
  "probe run = checkSite (outcome run) (startTime run) (endTime run) (checkedAtClock run)"

text \<open>
  The values \<^verbatim>\<open>errorType\<close> takes in the \<^verbatim>\<open>catch\<close> block of \<^verbatim>\<open>checkSite\<close>. They are the
  kinds of the specification in the source's spelling: \<^verbatim>\<open>Timeout\<close>, \<^verbatim>\<open>DNS Error\<close> (DnsError),
  \<^verbatim>\<open>Connection Error\<close> (ConnectionRefused), \<^verbatim>\<open>SSL Warning\<close> (TlsError),
  \<^verbatim>\<open>Network Error\<close> (NetworkError) and \<^verbatim>\<open>Unknown\<close>.
\<close>

definition error_types :: "string set" where
  "error_types = {''Timeout'', ''DNS Error'', ''Connection Error'', ''SSL Warning'',
                  ''Network Error'', ''Unknown''}"

section \<open>The state tracker\<close>

text \<open>
  The functions that touch the table return three things: what the source function
  returns, what it hands to \<^verbatim>\<open>sendTelegramAlert\<close>, and the table afterwards.
\<close>

abbreviation returned :: "'a \<times> 'b \<times> 'c \<Rightarrow> 'a" where
  "returned u \<equiv> fst u"

abbreviation alert_sent :: "'a \<times> 'b \<times> 'c \<Rightarrow> 'b" where
  "alert_sent u \<equiv> fst (snd u)"

abbreviation state_after :: "'a \<times> 'b \<times> 'c \<Rightarrow> 'c" where
  "state_after u \<equiv> snd (snd u)"

text \<open>\<^verbatim>\<open>let monitoringState = {}\<close>: no entry, and nothing written on what it inherits.\<close>

definition no_properties :: inherited_object where
  "no_properties =
     \<lparr>ownLastStatus = None, ownLastCheckedAt = None, ownLastStatusCode = None,
      ownLastError = None, ownChangeCount = False, ownLastChangedAt = None\<rparr>"

definition initial_state :: monitoring_state where
  "initial_state =
     \<lparr>entries = Map.empty, onFunctions = (\<lambda>f. no_properties), onPrototype = no_properties\<rparr>"

text \<open>
  The names under which a plain object inherits a function from \<^verbatim>\<open>Object.prototype\<close>:
  eleven distinct function objects.
\<close>

definition inherited_functions :: "string list" where
  "inherited_functions =
     [''constructor'', ''__defineGetter__'', ''__defineSetter__'', ''hasOwnProperty'',
      ''__lookupGetter__'', ''__lookupSetter__'', ''isPrototypeOf'',
      ''propertyIsEnumerable'', ''toString'', ''valueOf'', ''toLocaleString'']"

text \<open>
  What a lookup \<^verbatim>\<open>monitoringState[n]\<close> finds, as far as the tracker tells the cases
  apart: an entry; an inherited function; \<^verbatim>\<open>Object.prototype\<close>; a string or a number
  written on \<^verbatim>\<open>Object.prototype\<close> that counts as true; or something that counts as
  false (\<^verbatim>\<open>undefined\<close>, \<^verbatim>\<open>null\<close>, \<^verbatim>\<open>NaN\<close>, the empty string, zero).
\<close>

datatype found =
  Entry site_state
| InheritedFunction string
| ObjectPrototype
| TruthyPrimitive
| Falsy

text \<open>
  Whether the property \<open>n\<close> written on \<^verbatim>\<open>Object.prototype\<close> is a value that counts as
  true. The six properties the tracker writes are the only ones that can be there
  (\<^verbatim>\<open>changeCount\<close> is \<^verbatim>\<open>NaN\<close>, which counts as false).
\<close>

definition truthy_on_prototype :: "inherited_object \<Rightarrow> string \<Rightarrow> bool" where
  "truthy_on_prototype p n =
     (if n = ''lastStatus'' then
        (case ownLastStatus p of Some v \<Rightarrow> v \<noteq> [] | None \<Rightarrow> False)
      else if n = ''lastCheckedAt'' then
        (case ownLastCheckedAt p of Some v \<Rightarrow> v \<noteq> [] | None \<Rightarrow> False)
      else if n = ''lastStatusCode'' then
        (case ownLastStatusCode p of Some (Some c) \<Rightarrow> c \<noteq> 0 | _ \<Rightarrow> False)
      else if n = ''lastError'' then
        (case ownLastError p of Some (Some v) \<Rightarrow> v \<noteq> [] | _ \<Rightarrow> False)
      else if n = ''lastChangedAt'' then
        (case ownLastChangedAt p of Some v \<Rightarrow> v \<noteq> [] | None \<Rightarrow> False)
      else False)"

text \<open>
  The lookup \<^verbatim>\<open>monitoringState[n]\<close>: the object's own property first, then the
  properties of \<^verbatim>\<open>Object.prototype\<close>.
\<close>

definition state_lookup :: "monitoring_state \<Rightarrow> string \<Rightarrow> found" where
  "state_lookup ms n =
     (case entries ms n of
        Some e \<Rightarrow> Entry e
      | None \<Rightarrow>
          if n \<in> set inherited_functions then InheritedFunction n
          else if n = ''__proto__'' then ObjectPrototype
          else if truthy_on_prototype (onPrototype ms) n then TruthyPrimitive
          else Falsy)"

text \<open>
  Reading a property of an inherited function: its own property if it has been written,
  else the property of \<^verbatim>\<open>Object.prototype\<close>.
\<close>

definition inherit :: "'a option \<Rightarrow> 'a option \<Rightarrow> 'a option" where
  "inherit own proto = (case own of Some v \<Rightarrow> Some v | None \<Rightarrow> proto)"

text \<open>The four assignments of \<^verbatim>\<open>updateMonitoringState\<close>, on an inherited object.\<close>

definition write_result :: "inherited_object \<Rightarrow> check_result \<Rightarrow> inherited_object" where
  "write_result obj checkResult =
     obj\<lparr>ownLastStatus := Some (status checkResult),
         ownLastCheckedAt := Some (checkedAt checkResult),
         ownLastStatusCode := Some (statusCode checkResult),
         ownLastError := Some (error checkResult)\<rparr>"

text \<open>
  \<^verbatim>\<open>currentState.changeCount++\<close> and the assignment of \<^verbatim>\<open>lastChangedAt\<close>, on an
  inherited object: the count read is \<^verbatim>\<open>undefined\<close> or \<^verbatim>\<open>NaN\<close>, the count written
  \<^verbatim>\<open>NaN\<close>.
\<close>

definition write_change :: "inherited_object \<Rightarrow> string \<Rightarrow> inherited_object" where
  "write_change obj now = obj\<lparr>ownChangeCount := True, ownLastChangedAt := Some now\<rparr>"

text \<open>The object returned on a state change, and the argument of the alert.\<close>

definition change_event ::
  "string \<Rightarrow> string option \<Rightarrow> string \<Rightarrow> string option \<Rightarrow> js_count \<Rightarrow> state_change" where
  "change_event n prev new at cnt =
     \<lparr>siteName = n, previousStatus = prev, newStatus = new, changedAt = at,
      changeNumber = cnt\<rparr>"

definition alert_for ::
  "string \<Rightarrow> string option \<Rightarrow> string option \<Rightarrow> check_result \<Rightarrow> telegram_alert" where
  "alert_for n site_url prev checkResult =
     \<lparr>alertSiteName = n, alertUrl = site_url, alertNewStatus = status checkResult,
      alertPreviousStatus = prev, alertStatusCode = statusCode checkResult,
      alertResponseTime = responseTime checkResult, alertError = error checkResult,
      alertCheckedAt = checkedAt checkResult\<rparr>"

text \<open>The entry \<^verbatim>\<open>initializeMonitoringState\<close> stores for a site it has not seen.\<close>

definition fresh_state :: "site \<Rightarrow> site_state" where
  "fresh_state s =
     \<lparr>name = name s, url = url s, lastStatus = None, lastCheckedAt = None,
      lastChangedAt = None, changeCount = 0, lastStatusCode = None, lastError = None\<rparr>"

text \<open>
  The body of the \<^verbatim>\<open>forEach\<close> of \<^verbatim>\<open>initializeMonitoringState\<close>: an entry is stored
  when \<^verbatim>\<open>!monitoringState[site.name]\<close>, that is when the lookup finds something that
  counts as false.
\<close>

definition initialize_site :: "monitoring_state \<Rightarrow> site \<Rightarrow> monitoring_state" where
  "initialize_site ms s =
     (if state_lookup ms (name s) = Falsy
      then ms\<lparr>entries := (entries ms)(name s \<mapsto> fresh_state s)\<rparr>
      else ms)"

text \<open>\<^verbatim>\<open>initializeMonitoringState()\<close>, with the list \<^verbatim>\<open>loadSites()\<close> returned as input.\<close>

definition initializeMonitoringState :: "site list \<Rightarrow> monitoring_state \<Rightarrow> monitoring_state" where
  "initializeMonitoringState sites ms = foldl initialize_site ms sites"

text \<open>
  \<^verbatim>\<open>updateMonitoringState(siteName, checkResult)\<close>. The result is what the call
  returns (\<open>None\<close> for \<^verbatim>\<open>null\<close> and for the bare \<^verbatim>\<open>return\<close>), the alert handed to
  \<^verbatim>\<open>sendTelegramAlert\<close> if it is called, and the state afterwards. \<open>now\<close> is the
  reading of \<^verbatim>\<open>new Date().toISOString()\<close>.

  The guard \<^verbatim>\<open>if (!currentState) return\<close> lets through whatever counts as true.
  \<^item> On an entry, \<^verbatim>\<open>lastStatus\<close> is \<^verbatim>\<open>null\<close> (\<open>None\<close>) or a string, and
    \<^verbatim>\<open>previousStatus !== null && previousStatus !== newStatus\<close> holds for a string that
    differs from the new status.
  \<^item> On an inherited function or on \<^verbatim>\<open>Object.prototype\<close>, the previous status is
    \<^verbatim>\<open>undefined\<close> (\<open>None\<close>) or a string, never \<^verbatim>\<open>null\<close>, so the test holds unless it
    is the new status; the assignments create properties on that object, the count
    becomes \<^verbatim>\<open>NaN\<close>, and \<^verbatim>\<open>currentState.url\<close> is \<^verbatim>\<open>undefined\<close>.
  \<^item> On a string or a number, properties are read from \<^verbatim>\<open>Object.prototype\<close> and the
    assignments do nothing (the file is not in strict mode).
\<close>

definition updateMonitoringState ::
  "string \<Rightarrow> check_result \<Rightarrow> string \<Rightarrow> monitoring_state
     \<Rightarrow> state_change option \<times> telegram_alert option \<times> monitoring_state" where
  "updateMonitoringState site_name checkResult now ms =
     (let new = status checkResult in
      case state_lookup ms site_name of
        Falsy \<Rightarrow> (None, None, ms)
      | Entry currentState \<Rightarrow>
          (let prev = lastStatus currentState;
               updated = currentState
                 \<lparr>lastStatus := Some new,
                  lastCheckedAt := Some (checkedAt checkResult),
                  lastStatusCode := statusCode checkResult,
                  lastError := error checkResult\<rparr>
           in (case prev of
                 None \<Rightarrow> (None, None, ms\<lparr>entries := (entries ms)(site_name \<mapsto> updated)\<rparr>)
               | Some old \<Rightarrow>
                   if old \<noteq> new then
                     (let changed = updated
                            \<lparr>changeCount := changeCount updated + 1,
                             lastChangedAt := Some now\<rparr>
                      in (Some (change_event site_name (Some old) new (Some now)
                                  (Count (changeCount changed))),
                          Some (alert_for site_name (Some (url currentState)) (Some old)
                                  checkResult),
                          ms\<lparr>entries := (entries ms)(site_name \<mapsto> changed)\<rparr>))
                   else (None, None, ms\<lparr>entries := (entries ms)(site_name \<mapsto> updated)\<rparr>)))
      | InheritedFunction f \<Rightarrow>
          (let prev = inherit (ownLastStatus (onFunctions ms f)) (ownLastStatus (onPrototype ms));
               updated = write_result (onFunctions ms f) checkResult
           in if prev \<noteq> Some new then
                (Some (change_event site_name prev new (Some now) NaN),
                 Some (alert_for site_name None prev checkResult),
                 ms\<lparr>onFunctions := (onFunctions ms)(f := write_change updated now)\<rparr>)
              else (None, None, ms\<lparr>onFunctions := (onFunctions ms)(f := updated)\<rparr>))
      | ObjectPrototype \<Rightarrow>
          (let prev = ownLastStatus (onPrototype ms);
               updated = write_result (onPrototype ms) checkResult
           in if prev \<noteq> Some new then
                (Some (change_event site_name prev new (Some now) NaN),
                 Some (alert_for site_name None prev checkResult),
                 ms\<lparr>onPrototype := write_change updated now\<rparr>)
              else (None, None, ms\<lparr>onPrototype := updated\<rparr>))
      | TruthyPrimitive \<Rightarrow>
          (let prev = ownLastStatus (onPrototype ms)
           in if prev \<noteq> Some new then
                (Some (change_event site_name prev new (ownLastChangedAt (onPrototype ms))
                         (if ownChangeCount (onPrototype ms) then NaN else NoCount)),
                 Some (alert_for site_name None prev checkResult),
                 ms)
              else (None, None, ms)))"

text \<open>
  A run of calls of \<^verbatim>\<open>updateMonitoringState\<close>, one after the other, for any sites:
  each element is the site name, the probe result and the clock reading of the call.
\<close>

fun update_all :: "(string \<times> check_result \<times> string) list \<Rightarrow> monitoring_state \<Rightarrow> monitoring_state" where
  "update_all [] ms = ms"
| "update_all (u # us) ms =
     update_all us (state_after (updateMonitoringState (fst u) (fst (snd u)) (snd (snd u)) ms))"

text \<open>The statuses a run of calls reports for one site, in the order of the calls.\<close>

definition statuses_of :: "string \<Rightarrow> (string \<times> check_result \<times> string) list \<Rightarrow> string list" where
  "statuses_of n us = map (\<lambda>u. status (fst (snd u))) (filter (\<lambda>u. fst u = n) us)"

text \<open>
  The count of transitions as the specification words it: an observation counts once
  when it differs from the immediately preceding status and that status is not unknown;
  the first observation after unknown does not count.
\<close>

fun spec_transitions :: "string option \<Rightarrow> string list \<Rightarrow> nat" where
  "spec_transitions prev [] = 0"
| "spec_transitions prev (s # ss) =
     (if prev \<noteq> None \<and> prev \<noteq> Some s then 1 else 0) + spec_transitions (Some s) ss"

section \<open>The monitoring cycle and the manual check\<close>

text \<open>
  What one element of \<^verbatim>\<open>checkPromises\<close> resolves to: the \<^verbatim>\<open>.then\<close> handler spreads
  the result of \<^verbatim>\<open>checkSite\<close>; the \<^verbatim>\<open>.catch\<close> handler builds a \<^verbatim>\<open>DOWN\<close> object
  with the message of what was thrown and its own clock reading, and nothing else. The
  \<^verbatim>\<open>.then\<close> handler itself throws nothing (\<^verbatim>\<open>sendTelegramAlert\<close> is asynchronous and
  its promise is dropped), so the \<^verbatim>\<open>.catch\<close> handler runs exactly when \<^verbatim>\<open>checkSite\<close>
  rejects.
\<close>

definition settle :: "site \<times> probe_run \<Rightarrow> site_result" where
  "settle t =
     (case t of (s, run) \<Rightarrow>
        (case probe run of
           Inr r \<Rightarrow> \<lparr>name = name s, url = url s, result = r\<rparr>
         | Inl err \<Rightarrow>
             \<lparr>name = name s, url = url s,
              result = \<lparr>status = ''DOWN'', statusCode = None, responseTime = None,
                        checkedAt = handlerClock run, error = message err,
                        errorType = None\<rparr>\<rparr>))"

text \<open>
  The side effects of the \<^verbatim>\<open>.then\<close> handler of one probe: the state is updated and a
  change, if one is returned, is pushed on \<^verbatim>\<open>stateChanges\<close>. A rejected probe skips
  the handler. The accumulator is \<^verbatim>\<open>stateChanges\<close>, the alerts sent so far and the table.
\<close>

definition deliver ::
  "site \<times> probe_run \<Rightarrow> state_change list \<times> telegram_alert list \<times> monitoring_state
     \<Rightarrow> state_change list \<times> telegram_alert list \<times> monitoring_state" where
  "deliver t acc =
     (case t of (s, run) \<Rightarrow>
        (case acc of (changes, alerts, ms) \<Rightarrow>
           (case probe run of
              Inl err \<Rightarrow> (changes, alerts, ms)
            | Inr r \<Rightarrow>
                (case updateMonitoringState (name s) r (handlerClock run) ms of
                   (change, alert, ms') \<Rightarrow>
                     (changes @ (case change of None \<Rightarrow> [] | Some c \<Rightarrow> [c]),
                      alerts @ (case alert of None \<Rightarrow> [] | Some a \<Rightarrow> [a]),
                      ms')))))"

text \<open>
  The probes of a cycle run in parallel and their handlers run one at a time, in the
  order in which the probes settle: \<open>order\<close> lists the positions of the targets in that
  order. A position outside the list is skipped.
\<close>

fun deliver_all ::
  "(site \<times> probe_run) list \<Rightarrow> nat list
     \<Rightarrow> state_change list \<times> telegram_alert list \<times> monitoring_state
     \<Rightarrow> state_change list \<times> telegram_alert list \<times> monitoring_state" where
  "deliver_all targets [] acc = acc"
| "deliver_all targets (i # order) acc =
     deliver_all targets order (if i < length targets then deliver (targets ! i) acc else acc)"

text \<open>\<^verbatim>\<open>results.filter(r => r.status === st).length\<close>.\<close>

definition count_status :: "string \<Rightarrow> site_result list \<Rightarrow> nat" where
  "count_status st rs = length (filter (\<lambda>r. status (result r) = st) rs)"

text \<open>
  \<^verbatim>\<open>performAutomaticMonitoring()\<close>: the targets are the sites \<^verbatim>\<open>loadSites()\<close> returned,
  each with what its probe meets; \<open>stamp\<close> is the clock reading of the report. The
  function returns the report, the alerts sent and the table afterwards.
\<close>

definition performAutomaticMonitoring ::
  "(site \<times> probe_run) list \<Rightarrow> nat list \<Rightarrow> string \<Rightarrow> monitoring_state
     \<Rightarrow> cycle_report \<times> telegram_alert list \<times> monitoring_state" where
  "performAutomaticMonitoring targets order stamp ms =
     (case deliver_all targets order ([], [], ms) of
        (changes, alerts, ms') \<Rightarrow>
          (let rs = map settle targets
           in (\<lparr>timestamp = stamp, results = rs, stateChanges = changes,
                reportSummary =
                  \<lparr>total = length rs, up = count_status ''UP'' rs,
                   down = count_status ''DOWN'' rs\<rparr>\<rparr>,
               alerts, ms')))"

text \<open>
  What one element of \<^verbatim>\<open>checkPromises\<close> of the handler of \<^verbatim>\<open>GET /api/check\<close>
  settles to: there is a \<^verbatim>\<open>.then\<close> handler and no \<^verbatim>\<open>.catch\<close>.
\<close>

definition check_one :: "site \<times> probe_run \<Rightarrow> js_error + site_result" where
  "check_one t =
     (case t of (s, run) \<Rightarrow>
        (case probe run of
           Inr r \<Rightarrow> Inr \<lparr>name = name s, url = url s, result = r\<rparr>
         | Inl err \<Rightarrow> Inl err))"

text \<open>
  \<^verbatim>\<open>Promise.all\<close>: all the values when every promise resolved, else the value some
  promise rejected with. (Which rejection comes first depends on timing; here it is the
  first of the list. Every rejection of \<^verbatim>\<open>checkSite\<close> carries the same value.)
\<close>

fun promise_all :: "('e + 'a) list \<Rightarrow> 'e + 'a list" where
  "promise_all [] = Inr []"
| "promise_all (Inl e # ps) = Inl e"
| "promise_all (Inr x # ps) = (case promise_all ps of Inl e \<Rightarrow> Inl e | Inr xs \<Rightarrow> Inr (x # xs))"

text \<open>
  The handler of \<^verbatim>\<open>GET /api/check\<close>, in the same shape as the cycle: the answer, the
  alerts sent and the table afterwards. The handler never mentions
  \<^verbatim>\<open>monitoringState\<close>, \<^verbatim>\<open>updateMonitoringState\<close> or \<^verbatim>\<open>sendTelegramAlert\<close>.
\<close>

definition api_check ::
  "(site \<times> probe_run) list \<Rightarrow> string \<Rightarrow> monitoring_state
     \<Rightarrow> api_response \<times> telegram_alert list \<times> monitoring_state" where
  "api_check targets stamp ms =
     (if length targets = 0 then (Json400 ''No sites configured in sites.json'', [], ms)
      else
        (case promise_all (map check_one targets) of
           Inl err \<Rightarrow> (Json500 (message err), [], ms)
         | Inr rs \<Rightarrow>
             (Json200 stamp
                \<lparr>total = length rs, up = count_status ''UP'' rs,
                 down = count_status ''DOWN'' rs\<rparr> rs,
              [], ms)))"


section \<open>Example sites and probes\<close>

text \<open>
  The registry of the specification's scenario: site A answers 200 after 50 ms, site B
  times out after 5000 ms. A third probe throws a value that has neither a code nor a
  message.
\<close>

definition example_site_A :: site where
  "example_site_A = \<lparr>name = ''A'', url = ''http://ok''\<rparr>"

definition example_site_B :: site where
  "example_site_B = \<lparr>name = ''B'', url = ''http://timeout''\<rparr>"

definition example_run_ok :: probe_run where
  "example_run_ok =
     \<lparr>outcome = Response 200, startTime = 1000, endTime = 1050,
      checkedAtClock = ''2026-01-21T10:30:45.050Z'',
      handlerClock = ''2026-01-21T10:30:45.051Z''\<rparr>"

definition example_run_timeout :: probe_run where
  "example_run_timeout =
     \<lparr>outcome = Rejected \<lparr>code = Some ''ECONNABORTED'',
                           message = Some ''timeout of 5000ms exceeded''\<rparr>,
      startTime = 1000, endTime = 6000,
      checkedAtClock = ''2026-01-21T10:30:50.000Z'',
      handlerClock = ''2026-01-21T10:30:50.001Z''\<rparr>"

definition example_run_thrown :: probe_run where
  "example_run_thrown =
     \<lparr>outcome = Rejected \<lparr>code = None, message = None\<rparr>,
      startTime = 1000, endTime = 1003,
      checkedAtClock = ''2026-01-21T10:30:45.003Z'',
      handlerClock = ''2026-01-21T10:30:45.004Z''\<rparr>"

definition example_run_503 :: probe_run where
  "example_run_503 =
     \<lparr>outcome = Response 503, startTime = 2000, endTime = 2040,
      checkedAtClock = ''2026-01-21T10:35:45.040Z'',
      handlerClock = ''2026-01-21T10:35:45.041Z''\<rparr>"

text \<open>A site named after a member that every object inherits.\<close>

definition example_site_constructor :: site where
  "example_site_constructor = \<lparr>name = ''constructor'', url = ''http://c''\<rparr>"

text \<open>A probe result of a given status, read at a given time.\<close>

definition example_seen :: "string \<Rightarrow> string \<Rightarrow> check_result" where
  "example_seen st at =
     \<lparr>status = st, statusCode = Some (if st = ''UP'' then 200 else 503),
      responseTime = Some 50, checkedAt = at, error = None, errorType = None\<rparr>"

text \<open>The table after start-up with site A alone in the registry.\<close>

definition example_state :: monitoring_state where
  "example_state = initializeMonitoringState [example_site_A] initial_state"

text \<open>The table once site A has been seen UP and then DOWN.\<close>

definition example_state_changed :: monitoring_state where
  "example_state_changed =
     update_all [(''A'', example_seen ''UP'' ''t1'', ''u1''),
                 (''A'', example_seen ''DOWN'' ''t2'', ''u2'')] example_state"

text \<open>The state once a site named \<^verbatim>\<open>__proto__\<close> has been seen UP, from the empty table.\<close>

definition example_state_polluted :: monitoring_state where
  "example_state_polluted =
     state_after (updateMonitoringState ''__proto__'' (example_seen ''UP'' ''t1'') ''u1''
        initial_state)"

section \<open>Classification of a received status code\<close>

text \<open>
  Claim C1. For every integer status code \<open>c\<close> of a received response, the probe returns
  a result whose status is UP if and only if \<open>200 \<le> c < 400\<close>; for any other code the
  status is DOWN, the code is recorded, and no error is reported.
\<close>

theorem checkSite_classifies_status_code:
  "\<exists>r. checkSite (Response c) start finish now = Inr r
       \<and> (status r = ''UP'') = (200 \<le> c \<and> c < 400)
       \<and> (status r = ''DOWN'') = (\<not> (200 \<le> c \<and> c < 400))
       \<and> statusCode r = Some c \<and> error r = None \<and> errorType r = None"
  by (simp add: checkSite_def)

text \<open>The codes 404 and 301 of the specification's examples.\<close>

theorem checkSite_classifies_status_code_witness:
  "status (projr (checkSite (Response 404) 0 50 ''t'')) = ''DOWN''
     \<and> statusCode (projr (checkSite (Response 404) 0 50 ''t'')) = Some 404
     \<and> status (projr (checkSite (Response 301) 0 50 ''t'')) = ''UP''"
  using checkSite_classifies_status_code [of 404 0 50 "''t''"]
    checkSite_classifies_status_code [of 301 0 50 "''t''"]
  by auto

section \<open>Probes that get no response\<close>

lemma probe_failed_sel [simp]:
  "status (probe_failed d now m k) = ''DOWN''"
  "statusCode (probe_failed d now m k) = None"
  "responseTime (probe_failed d now m k) = Some d"
  "checkedAt (probe_failed d now m k) = now"
  "error (probe_failed d now m k) = Some m"
  "errorType (probe_failed d now m k) = Some k"
  by (simp_all add: probe_failed_def)

text \<open>Whatever the \<^verbatim>\<open>catch\<close> block returns is DOWN, with one of the six error types.\<close>

lemma checkSite_rejected_result:
  "checkSite (Rejected e) start finish now = Inr r \<Longrightarrow>
     status r = ''DOWN'' \<and> statusCode r = None \<and> responseTime r = Some (finish - start)
     \<and> (\<exists>k \<in> error_types. errorType r = Some k)"
  by (auto simp: checkSite_def error_types_def split: if_splits option.splits)

lemma checkSite_rejected_by_code:
  "checkSite (Rejected e) start finish now = Inr r \<Longrightarrow>
     (code e = Some ''ECONNABORTED'' \<longrightarrow> errorType r = Some ''Timeout'')
     \<and> (code e = Some ''ENOTFOUND'' \<longrightarrow> errorType r = Some ''DNS Error'')
     \<and> (code e = Some ''ECONNREFUSED'' \<longrightarrow> errorType r = Some ''Connection Error'')
     \<and> (code e = Some ''ERR_TLS_CERT_ALTNAME_INVALID'' \<or> code e = Some ''CERT_HAS_EXPIRED''
          \<longrightarrow> errorType r = Some ''SSL Warning'')"
  by (auto simp: checkSite_def split: if_splits option.splits)

text \<open>
  The \<^verbatim>\<open>catch\<close> block returns exactly when one of the five codes matches or the thrown
  value has a message; otherwise reading \<^verbatim>\<open>error.message.includes\<close> throws.
\<close>

lemma checkSite_returns_iff:
  "(\<exists>r. checkSite (Rejected e) start finish now = Inr r)
     = (code e = Some ''ECONNABORTED'' \<or> code e = Some ''ENOTFOUND''
        \<or> code e = Some ''ECONNREFUSED'' \<or> code e = Some ''ERR_TLS_CERT_ALTNAME_INVALID''
        \<or> code e = Some ''CERT_HAS_EXPIRED'' \<or> message e \<noteq> None)"
  by (auto simp: checkSite_def split: option.splits)

lemma checkSite_rejects_iff:
  "(checkSite (Rejected e) start finish now = Inl x)
     = (x = includes_of_undefined \<and> message e = None
        \<and> code e \<noteq> Some ''ECONNABORTED'' \<and> code e \<noteq> Some ''ENOTFOUND''
        \<and> code e \<noteq> Some ''ECONNREFUSED'' \<and> code e \<noteq> Some ''ERR_TLS_CERT_ALTNAME_INVALID''
        \<and> code e \<noteq> Some ''CERT_HAS_EXPIRED'')"
  by (auto simp: checkSite_def split: option.splits)

text \<open>An error with a message and none of the codes: the kind follows the message.\<close>

lemma checkSite_by_message:
  assumes "code e \<noteq> Some ''ECONNABORTED''" "code e \<noteq> Some ''ENOTFOUND''"
    "code e \<noteq> Some ''ECONNREFUSED''" "code e \<noteq> Some ''ERR_TLS_CERT_ALTNAME_INVALID''"
    "code e \<noteq> Some ''CERT_HAS_EXPIRED''" "message e = Some msg"
  shows "checkSite (Rejected e) start finish now =
     Inr (if includes_str msg ''certificate'' then
            probe_failed (finish - start) now
              ''SSL certificate issue (but connection was made)'' ''SSL Warning''
          else if includes_str msg ''getaddrinfo'' then
            probe_failed (finish - start) now ''Network error'' ''Network Error''
          else if msg \<noteq> [] then probe_failed (finish - start) now msg ''Unknown''
          else probe_failed (finish - start) now ''Unknown error'' ''Unknown'')"
  using assms by (simp add: checkSite_def)


section \<open>What a lookup finds\<close>

lemma lookup_entry: "entries ms n = Some e \<Longrightarrow> state_lookup ms n = Entry e"
  by (simp add: state_lookup_def)

lemma lookup_entry_iff: "(state_lookup ms n = Entry e) = (entries ms n = Some e)"
  by (auto simp: state_lookup_def split: option.splits)

text \<open>
  A name with no entry is found as nothing unless it is the name of an inherited
  function, \<^verbatim>\<open>__proto__\<close>, or the name of a property written on \<^verbatim>\<open>Object.prototype\<close>.
\<close>

lemma lookup_falsy_iff:
  "(state_lookup ms n = Falsy)
     = (entries ms n = None \<and> n \<notin> set inherited_functions \<and> n \<noteq> ''__proto__''
        \<and> \<not> truthy_on_prototype (onPrototype ms) n)"
  by (auto simp: state_lookup_def split: option.splits)

lemma lookup_inherited_function:
  "entries ms n = None \<Longrightarrow> n \<in> set inherited_functions \<Longrightarrow>
     state_lookup ms n = InheritedFunction n"
  by (simp add: state_lookup_def)

lemma nothing_on_initial_prototype: "\<not> truthy_on_prototype no_properties n"
  by (simp add: truthy_on_prototype_def no_properties_def)

section \<open>Transitions of a tracked site\<close>

lemma update_nothing_found:
  "state_lookup ms n = Falsy \<Longrightarrow> updateMonitoringState n r now ms = (None, None, ms)"
  by (simp add: updateMonitoringState_def)

lemma update_first:
  "entries ms n = Some cur \<Longrightarrow> lastStatus cur = None \<Longrightarrow>
   updateMonitoringState n r now ms =
     (None, None,
      ms\<lparr>entries := (entries ms)
            (n \<mapsto> cur\<lparr>lastStatus := Some (status r), lastCheckedAt := Some (checkedAt r),
                        lastStatusCode := statusCode r, lastError := error r\<rparr>)\<rparr>)"
  by (simp add: updateMonitoringState_def Let_def lookup_entry)

lemma update_changed:
  "entries ms n = Some cur \<Longrightarrow> lastStatus cur = Some old \<Longrightarrow> old \<noteq> status r \<Longrightarrow>
   updateMonitoringState n r now ms =
     (Some \<lparr>siteName = n, previousStatus = Some old, newStatus = status r,
            changedAt = Some now, changeNumber = Count (changeCount cur + 1)\<rparr>,
      Some \<lparr>alertSiteName = n, alertUrl = Some (url cur), alertNewStatus = status r,
            alertPreviousStatus = Some old, alertStatusCode = statusCode r,
            alertResponseTime = responseTime r, alertError = error r,
            alertCheckedAt = checkedAt r\<rparr>,
      ms\<lparr>entries := (entries ms)
            (n \<mapsto> cur\<lparr>lastStatus := Some (status r), lastCheckedAt := Some (checkedAt r),
                        lastStatusCode := statusCode r, lastError := error r,
                        changeCount := changeCount cur + 1, lastChangedAt := Some now\<rparr>)\<rparr>)"
  by (simp add: updateMonitoringState_def Let_def lookup_entry change_event_def alert_for_def)

lemma update_same:
  "entries ms n = Some cur \<Longrightarrow> lastStatus cur = Some (status r) \<Longrightarrow>
   updateMonitoringState n r now ms =
     (None, None,
      ms\<lparr>entries := (entries ms)
            (n \<mapsto> cur\<lparr>lastStatus := Some (status r), lastCheckedAt := Some (checkedAt r),
                        lastStatusCode := statusCode r, lastError := error r\<rparr>)\<rparr>)"
  by (simp add: updateMonitoringState_def Let_def lookup_entry)

lemma update_other:
  "m \<noteq> n \<Longrightarrow> entries (state_after (updateMonitoringState m r now ms)) n = entries ms n"
  by (simp add: updateMonitoringState_def Let_def split: found.splits option.splits)

lemma update_entry:
  "entries ms n = Some cur \<Longrightarrow>
     \<exists>nxt. entries (state_after (updateMonitoringState n r now ms)) n = Some nxt
       \<and> lastStatus nxt = Some (status r)
       \<and> changeCount nxt =
           changeCount cur
             + (if lastStatus cur \<noteq> None \<and> lastStatus cur \<noteq> Some (status r) then 1 else 0)"
  by (auto simp: updateMonitoringState_def Let_def lookup_entry split: option.splits)

lemma update_all_count:
  "entries ms n = Some cur \<Longrightarrow>
     \<exists>fin. entries (update_all us ms) n = Some fin
       \<and> changeCount fin = changeCount cur + spec_transitions (lastStatus cur) (statuses_of n us)"
proof (induction us arbitrary: ms cur)
  case Nil
  then show ?case by (simp add: statuses_of_def)
next
  case (Cons u us)
  let ?ms = "state_after (updateMonitoringState (fst u) (fst (snd u)) (snd (snd u)) ms)"
  show ?case
  proof (cases "fst u = n")
    case True
    from Cons.prems update_entry [of ms n cur "fst (snd u)" "snd (snd u)"]
    obtain nxt where nxt:
      "entries (state_after (updateMonitoringState n (fst (snd u)) (snd (snd u)) ms)) n = Some nxt"
      "lastStatus nxt = Some (status (fst (snd u)))"
      "changeCount nxt = changeCount cur
         + (if lastStatus cur \<noteq> None \<and> lastStatus cur \<noteq> Some (status (fst (snd u))) then 1 else 0)"
      by blast
    from nxt(1) True have "entries ?ms n = Some nxt" by simp
    with Cons.IH [of ?ms nxt] obtain fin where
      "entries (update_all us ?ms) n = Some fin"
      "changeCount fin = changeCount nxt + spec_transitions (lastStatus nxt) (statuses_of n us)"
      by blast
    with nxt True show ?thesis by (simp add: statuses_of_def)
  next
    case False
    then have "entries ?ms n = Some cur" using Cons.prems by (simp add: update_other)
    with Cons.IH [of ?ms cur] obtain fin where
      "entries (update_all us ?ms) n = Some fin"
      "changeCount fin = changeCount cur + spec_transitions (lastStatus cur) (statuses_of n us)"
      by blast
    with False show ?thesis by (simp add: statuses_of_def)
  qed
qed

lemma example_state_A: "entries example_state ''A'' = Some (fresh_state example_site_A)"
  by (simp add: example_state_def initializeMonitoringState_def initialize_site_def
      state_lookup_def inherited_functions_def truthy_on_prototype_def initial_state_def
      no_properties_def example_site_A_def)

lemma example_state_B: "state_lookup example_state ''B'' = Falsy"
  by (simp add: example_state_def initializeMonitoringState_def initialize_site_def
      state_lookup_def inherited_functions_def truthy_on_prototype_def initial_state_def
      no_properties_def example_site_A_def)

text \<open>
  Claim C2. Along any run of updates, the change count of a tracked site grows by the
  number of its observations that differ from the immediately preceding known status; the
  first observation of a site whose status is unknown does not count. For a site that
  starts unknown with count zero and is observed UP, UP, DOWN, DOWN, UP, the count ends
  at exactly 2.
\<close>

theorem changeCount_counts_transitions:
  assumes "entries ms n = Some cur"
  shows "\<exists>fin. entries (update_all us ms) n = Some fin
       \<and> changeCount fin = changeCount cur + spec_transitions (lastStatus cur) (statuses_of n us)
       \<and> (lastStatus cur = None \<and> changeCount cur = 0
            \<and> statuses_of n us = [''UP'', ''UP'', ''DOWN'', ''DOWN'', ''UP'']
          \<longrightarrow> changeCount fin = 2)"
proof -
  from assms update_all_count [of ms n cur us] obtain fin where
    fin: "entries (update_all us ms) n = Some fin"
      "changeCount fin = changeCount cur + spec_transitions (lastStatus cur) (statuses_of n us)"
    by blast
  have "lastStatus cur = None \<and> changeCount cur = 0
            \<and> statuses_of n us = [''UP'', ''UP'', ''DOWN'', ''DOWN'', ''UP'']
          \<longrightarrow> changeCount fin = 2"
    using fin(2) by simp
  with fin show ?thesis by blast
qed

text \<open>
  Site A after start-up, observed UP, UP, DOWN, DOWN, UP while site B is observed in
  between: two changes.
\<close>

theorem changeCount_counts_transitions_witness:
  "\<exists>fin. entries (update_all
            [(''A'', example_seen ''UP'' ''t1'', ''u1''),
             (''B'', example_seen ''DOWN'' ''t1'', ''u1''),
             (''A'', example_seen ''UP'' ''t2'', ''u2''),
             (''A'', example_seen ''DOWN'' ''t3'', ''u3''),
             (''B'', example_seen ''UP'' ''t3'', ''u3''),
             (''A'', example_seen ''DOWN'' ''t4'', ''u4''),
             (''A'', example_seen ''UP'' ''t5'', ''u5'')]
            example_state) ''A'' = Some fin
       \<and> changeCount fin = 2"
  (is "\<exists>fin. entries (update_all ?us example_state) ''A'' = Some fin \<and> changeCount fin = 2")
proof -
  note example_state_A
  with changeCount_counts_transitions
         [of example_state "''A''" "fresh_state example_site_A" ?us]
  show ?thesis
    by (auto simp: statuses_of_def example_seen_def fresh_state_def)
qed

section \<open>Change events\<close>

text \<open>
  Claim C3. For a site that has an entry, an update returns a change event if and only if
  the previous status is known and differs from the new one. In exactly that case the
  event carries the name, both statuses, the time of the update and the new count, the
  count grows by one and the time of the last change becomes the time of the update;
  otherwise count and time of the last change stay as they were. A site of unknown status
  probed twice, UP then DOWN, yields no event at the first update and one at the second,
  count 1, and the time of the last change is the clock reading of the second update.
\<close>

theorem update_returns_change_event:
  assumes "entries ms n = Some cur"
  shows "(returned (updateMonitoringState n r now ms) \<noteq> None)
     = (\<exists>old. lastStatus cur = Some old \<and> old \<noteq> status r)
   \<and> (\<forall>old. lastStatus cur = Some old \<and> old \<noteq> status r \<longrightarrow>
        returned (updateMonitoringState n r now ms)
          = Some \<lparr>siteName = n, previousStatus = Some old, newStatus = status r,
                  changedAt = Some now, changeNumber = Count (changeCount cur + 1)\<rparr>
        \<and> (\<exists>nxt. entries (state_after (updateMonitoringState n r now ms)) n = Some nxt
              \<and> changeCount nxt = changeCount cur + 1 \<and> lastChangedAt nxt = Some now))
   \<and> (returned (updateMonitoringState n r now ms) = None \<longrightarrow>
        (\<exists>nxt. entries (state_after (updateMonitoringState n r now ms)) n = Some nxt
              \<and> changeCount nxt = changeCount cur \<and> lastChangedAt nxt = lastChangedAt cur))
   \<and> (\<forall>r2 now2. lastStatus cur = None \<and> changeCount cur = 0
          \<and> status r = ''UP'' \<and> status r2 = ''DOWN'' \<longrightarrow>
        returned (updateMonitoringState n r now ms) = None
        \<and> returned (updateMonitoringState n r2 now2 (state_after (updateMonitoringState n r now ms)))
            = Some \<lparr>siteName = n, previousStatus = Some ''UP'', newStatus = ''DOWN'',
                    changedAt = Some now2, changeNumber = Count 1\<rparr>
        \<and> (\<exists>fin. entries (state_after (updateMonitoringState n r2 now2
                       (state_after (updateMonitoringState n r now ms)))) n = Some fin
              \<and> changeCount fin = 1 \<and> lastChangedAt fin = Some now2))"
proof (intro conjI allI impI)
  show "(returned (updateMonitoringState n r now ms) \<noteq> None)
     = (\<exists>old. lastStatus cur = Some old \<and> old \<noteq> status r)"
    using assms
    by (auto simp: updateMonitoringState_def Let_def lookup_entry split: option.splits)
next
  fix old :: string
  assume a: "lastStatus cur = Some old \<and> old \<noteq> status r"
  with assms update_changed [of ms n cur old r now]
  have u: "updateMonitoringState n r now ms =
     (Some \<lparr>siteName = n, previousStatus = Some old, newStatus = status r,
            changedAt = Some now, changeNumber = Count (changeCount cur + 1)\<rparr>,
      Some \<lparr>alertSiteName = n, alertUrl = Some (url cur), alertNewStatus = status r,
            alertPreviousStatus = Some old, alertStatusCode = statusCode r,
            alertResponseTime = responseTime r, alertError = error r,
            alertCheckedAt = checkedAt r\<rparr>,
      ms\<lparr>entries := (entries ms)
            (n \<mapsto> cur\<lparr>lastStatus := Some (status r), lastCheckedAt := Some (checkedAt r),
                        lastStatusCode := statusCode r, lastError := error r,
                        changeCount := changeCount cur + 1, lastChangedAt := Some now\<rparr>)\<rparr>)"
    by blast
  show "returned (updateMonitoringState n r now ms)
          = Some \<lparr>siteName = n, previousStatus = Some old, newStatus = status r,
                  changedAt = Some now, changeNumber = Count (changeCount cur + 1)\<rparr>"
    by (simp add: u)
  show "\<exists>nxt. entries (state_after (updateMonitoringState n r now ms)) n = Some nxt
              \<and> changeCount nxt = changeCount cur + 1 \<and> lastChangedAt nxt = Some now"
    by (simp add: u)
next
  assume "returned (updateMonitoringState n r now ms) = None"
  with assms show "\<exists>nxt. entries (state_after (updateMonitoringState n r now ms)) n = Some nxt
              \<and> changeCount nxt = changeCount cur \<and> lastChangedAt nxt = lastChangedAt cur"
    by (auto simp: updateMonitoringState_def Let_def lookup_entry
        split: option.splits if_splits)
next
  fix r2 :: check_result and now2 :: string
  assume a: "lastStatus cur = None \<and> changeCount cur = 0
          \<and> status r = ''UP'' \<and> status r2 = ''DOWN''"
  let ?mid = "cur\<lparr>lastStatus := Some (status r), lastCheckedAt := Some (checkedAt r),
                 lastStatusCode := statusCode r, lastError := error r\<rparr>"
  let ?ms1 = "ms\<lparr>entries := (entries ms)(n \<mapsto> ?mid)\<rparr>"
  from a assms update_first [of ms n cur r now]
  have u1: "updateMonitoringState n r now ms = (None, None, ?ms1)"
    by blast
  have "entries ?ms1 n = Some ?mid" "lastStatus ?mid = Some ''UP''" "''UP'' \<noteq> status r2"
    using a by simp_all
  with update_changed [of ?ms1 n ?mid "''UP''" r2 now2]
  have u2: "updateMonitoringState n r2 now2 ?ms1 =
    (Some \<lparr>siteName = n, previousStatus = Some ''UP'', newStatus = status r2,
           changedAt = Some now2, changeNumber = Count (changeCount ?mid + 1)\<rparr>,
     Some \<lparr>alertSiteName = n, alertUrl = Some (url ?mid), alertNewStatus = status r2,
           alertPreviousStatus = Some ''UP'', alertStatusCode = statusCode r2,
           alertResponseTime = responseTime r2, alertError = error r2,
           alertCheckedAt = checkedAt r2\<rparr>,
     ?ms1\<lparr>entries := (entries ?ms1)
            (n \<mapsto> ?mid\<lparr>lastStatus := Some (status r2),
               lastCheckedAt := Some (checkedAt r2),
               lastStatusCode := statusCode r2, lastError := error r2,
               changeCount := changeCount ?mid + 1, lastChangedAt := Some now2\<rparr>)\<rparr>)"
    by blast
  show "returned (updateMonitoringState n r now ms) = None"
    by (simp add: u1)
  show "returned (updateMonitoringState n r2 now2 (state_after (updateMonitoringState n r now ms)))
            = Some \<lparr>siteName = n, previousStatus = Some ''UP'', newStatus = ''DOWN'',
                    changedAt = Some now2, changeNumber = Count 1\<rparr>"
    by (simp only: u1 u2 fst_conv snd_conv) (simp add: a)
  show "\<exists>fin. entries (state_after (updateMonitoringState n r2 now2
                       (state_after (updateMonitoringState n r now ms)))) n = Some fin
              \<and> changeCount fin = 1 \<and> lastChangedAt fin = Some now2"
    by (simp only: u1 u2 fst_conv snd_conv) (simp add: a)
qed

text \<open>Site A after start-up, seen UP and then DOWN: one event, at the second update.\<close>

theorem update_returns_change_event_witness:
  "returned (updateMonitoringState ''A'' (example_seen ''UP'' ''t1'') ''u1'' example_state) = None
   \<and> returned (updateMonitoringState ''A'' (example_seen ''DOWN'' ''t2'') ''u2''
        (state_after (updateMonitoringState ''A'' (example_seen ''UP'' ''t1'') ''u1'' example_state)))
      = Some \<lparr>siteName = ''A'', previousStatus = Some ''UP'', newStatus = ''DOWN'',
              changedAt = Some ''u2'', changeNumber = Count 1\<rparr>
   \<and> (\<exists>fin. entries (state_after (updateMonitoringState ''A'' (example_seen ''DOWN'' ''t2'') ''u2''
        (state_after (updateMonitoringState ''A'' (example_seen ''UP'' ''t1'') ''u1'' example_state))))
          ''A'' = Some fin
         \<and> changeCount fin = 1 \<and> lastChangedAt fin = Some ''u2'')"
proof -
  have h: "lastStatus (fresh_state example_site_A) = None
        \<and> changeCount (fresh_state example_site_A) = 0
        \<and> status (example_seen ''UP'' ''t1'') = ''UP''
        \<and> status (example_seen ''DOWN'' ''t2'') = ''DOWN''"
    by (simp add: fresh_state_def example_seen_def)
  from update_returns_change_event
         [OF example_state_A, of "example_seen ''UP'' ''t1''" "''u1''"]
  have "\<forall>r2 now2. lastStatus (fresh_state example_site_A) = None
          \<and> changeCount (fresh_state example_site_A) = 0
          \<and> status (example_seen ''UP'' ''t1'') = ''UP'' \<and> status r2 = ''DOWN'' \<longrightarrow>
        returned (updateMonitoringState ''A'' (example_seen ''UP'' ''t1'') ''u1'' example_state) = None
        \<and> returned (updateMonitoringState ''A'' r2 now2
             (state_after (updateMonitoringState ''A'' (example_seen ''UP'' ''t1'') ''u1'' example_state)))
            = Some \<lparr>siteName = ''A'', previousStatus = Some ''UP'', newStatus = ''DOWN'',
                    changedAt = Some now2, changeNumber = Count 1\<rparr>
        \<and> (\<exists>fin. entries (state_after (updateMonitoringState ''A'' r2 now2
                       (state_after (updateMonitoringState ''A'' (example_seen ''UP'' ''t1'') ''u1''
                          example_state)))) ''A'' = Some fin
              \<and> changeCount fin = 1 \<and> lastChangedAt fin = Some now2)"
    by blast
  from this [rule_format, of "example_seen ''DOWN'' ''t2''" "''u2''"] h
  show ?thesis by blast
qed

section \<open>Names that have no entry\<close>

text \<open>
  A name with no entry that is neither the name of an inherited member nor the name of a
  property written on \<^verbatim>\<open>Object.prototype\<close>: the update returns at once, with no event
  and no alert, and leaves the state as it was.
\<close>

lemma update_unknown_name:
  assumes "entries ms n = None" "n \<notin> set inherited_functions" "n \<noteq> ''__proto__''"
    "\<not> truthy_on_prototype (onPrototype ms) n"
  shows "updateMonitoringState n r now ms = (None, None, ms)"
  using assms by (simp add: update_nothing_found lookup_falsy_iff)

lemma update_unknown_name_example:
  "updateMonitoringState ''B'' (example_seen ''DOWN'' ''t1'') ''u1'' example_state
     = (None, None, example_state)"
  by (simp add: update_nothing_found example_state_B)

text \<open>
  A name with no entry that is the name of an inherited function: the guard lets the
  function through, and an event is returned unless the status read from it is the new
  one.
\<close>

lemma update_inherited_function:
  assumes "entries ms n = None" "n \<in> set inherited_functions"
  shows "(returned (updateMonitoringState n r now ms) \<noteq> None)
           = (inherit (ownLastStatus (onFunctions ms n)) (ownLastStatus (onPrototype ms))
                \<noteq> Some (status r))"
    and "(alert_sent (updateMonitoringState n r now ms) \<noteq> None)
           = (inherit (ownLastStatus (onFunctions ms n)) (ownLastStatus (onPrototype ms))
                \<noteq> Some (status r))"
    and "ownLastStatus (onFunctions (state_after (updateMonitoringState n r now ms)) n)
           = Some (status r)"
    and "entries (state_after (updateMonitoringState n r now ms)) = entries ms"
  using assms
  by (simp_all add: updateMonitoringState_def Let_def lookup_inherited_function
      write_result_def write_change_def)

text \<open>
  Claim C10. The claim asks that an update for any name not present in the state map be
  a silent no-op. The guard \<^verbatim>\<open>if (!currentState) return\<close> is there for that, and it
  misses the names under which the table inherits a member: in the empty table, an update
  for \<^verbatim>\<open>constructor\<close> finds the function \<^verbatim>\<open>Object\<close>, returns a change event with no
  previous status and the count \<^verbatim>\<open>NaN\<close>, sends an alert with no url, and writes the
  result on that function.
\<close>

theorem update_inherited_name_is_not_a_noop:
  "entries initial_state ''constructor'' = None
   \<and> updateMonitoringState ''constructor'' (example_seen ''UP'' ''t1'') ''u1'' initial_state
     = (Some \<lparr>siteName = ''constructor'', previousStatus = None, newStatus = ''UP'',
              changedAt = Some ''u1'', changeNumber = NaN\<rparr>,
        Some \<lparr>alertSiteName = ''constructor'', alertUrl = None, alertNewStatus = ''UP'',
              alertPreviousStatus = None, alertStatusCode = Some 200,
              alertResponseTime = Some 50, alertError = None, alertCheckedAt = ''t1''\<rparr>,
        initial_state\<lparr>onFunctions := (onFunctions initial_state)
           (''constructor'' :=
              \<lparr>ownLastStatus = Some ''UP'', ownLastCheckedAt = Some ''t1'',
               ownLastStatusCode = Some (Some 200), ownLastError = Some None,
               ownChangeCount = True, ownLastChangedAt = Some ''u1''\<rparr>)\<rparr>)"
  by (simp add: updateMonitoringState_def Let_def state_lookup_def inherited_functions_def
      initial_state_def no_properties_def inherit_def write_result_def write_change_def
      change_event_def alert_for_def example_seen_def)

section \<open>Inherited members, by example\<close>

text \<open>
  The function found under \<^verbatim>\<open>constructor\<close> keeps what was written on it: a second
  update with the same status returns nothing, one with another status returns an event.
\<close>

lemma inherited_function_second_update:
  "returned (updateMonitoringState ''constructor'' (example_seen ''UP'' ''t2'') ''u2''
      (state_after (updateMonitoringState ''constructor'' (example_seen ''UP'' ''t1'') ''u1''
         initial_state))) = None
   \<and> returned (updateMonitoringState ''constructor'' (example_seen ''DOWN'' ''t2'') ''u2''
      (state_after (updateMonitoringState ''constructor'' (example_seen ''UP'' ''t1'') ''u1''
         initial_state)))
      = Some \<lparr>siteName = ''constructor'', previousStatus = Some ''UP'', newStatus = ''DOWN'',
              changedAt = Some ''u2'', changeNumber = NaN\<rparr>
   \<and> onFunctions (state_after (updateMonitoringState ''constructor''
        (example_seen ''UP'' ''t2'') ''u2''
        (state_after (updateMonitoringState ''constructor'' (example_seen ''UP'' ''t1'') ''u1''
           initial_state)))) ''constructor''
      = \<lparr>ownLastStatus = Some ''UP'', ownLastCheckedAt = Some ''t2'',
         ownLastStatusCode = Some (Some 200), ownLastError = Some None,
         ownChangeCount = True, ownLastChangedAt = Some ''u1''\<rparr>"
  by (simp add: updateMonitoringState_def Let_def state_lookup_def inherited_functions_def
      initial_state_def no_properties_def inherit_def write_result_def write_change_def
      change_event_def alert_for_def example_seen_def)

text \<open>
  An update for \<^verbatim>\<open>__proto__\<close> writes on \<^verbatim>\<open>Object.prototype\<close>. After it, every inherited
  function reads the status written there, and the names of the properties written there
  are found as strings: an update for \<^verbatim>\<open>toString\<close> with the same status returns
  nothing; an update for \<^verbatim>\<open>lastStatus\<close> finds the string \<^verbatim>\<open>UP\<close>, returns an event
  with what \<^verbatim>\<open>Object.prototype\<close> holds, and writes nothing.
\<close>

lemma prototype_update:
  "updateMonitoringState ''__proto__'' (example_seen ''UP'' ''t1'') ''u1'' initial_state
     = (Some \<lparr>siteName = ''__proto__'', previousStatus = None, newStatus = ''UP'',
              changedAt = Some ''u1'', changeNumber = NaN\<rparr>,
        Some \<lparr>alertSiteName = ''__proto__'', alertUrl = None, alertNewStatus = ''UP'',
              alertPreviousStatus = None, alertStatusCode = Some 200,
              alertResponseTime = Some 50, alertError = None, alertCheckedAt = ''t1''\<rparr>,
        initial_state\<lparr>onPrototype :=
              \<lparr>ownLastStatus = Some ''UP'', ownLastCheckedAt = Some ''t1'',
               ownLastStatusCode = Some (Some 200), ownLastError = Some None,
               ownChangeCount = True, ownLastChangedAt = Some ''u1''\<rparr>\<rparr>)"
  by (simp add: updateMonitoringState_def Let_def state_lookup_def inherited_functions_def
      initial_state_def no_properties_def write_result_def write_change_def
      change_event_def alert_for_def example_seen_def)

lemma polluted_prototype_examples:
  "returned (updateMonitoringState ''toString'' (example_seen ''UP'' ''t2'') ''u2''
      example_state_polluted) = None
   \<and> state_lookup example_state_polluted ''lastStatus'' = TruthyPrimitive
   \<and> state_lookup example_state_polluted ''lastStatusCode'' = TruthyPrimitive
   \<and> state_lookup example_state_polluted ''lastCheckedAt'' = TruthyPrimitive
   \<and> state_lookup example_state_polluted ''lastChangedAt'' = TruthyPrimitive
   \<and> state_lookup example_state_polluted ''__proto__'' = ObjectPrototype
   \<and> updateMonitoringState ''__proto__'' (example_seen ''UP'' ''t2'') ''u2''
        example_state_polluted
      = (None, None,
         example_state_polluted\<lparr>onPrototype :=
           \<lparr>ownLastStatus = Some ''UP'', ownLastCheckedAt = Some ''t2'',
            ownLastStatusCode = Some (Some 200), ownLastError = Some None,
            ownChangeCount = True, ownLastChangedAt = Some ''u1''\<rparr>\<rparr>)
   \<and> state_lookup example_state_polluted ''lastError'' = Falsy
   \<and> state_lookup example_state_polluted ''changeCount'' = Falsy
   \<and> updateMonitoringState ''lastStatus'' (example_seen ''DOWN'' ''t2'') ''u2''
        example_state_polluted
      = (Some \<lparr>siteName = ''lastStatus'', previousStatus = Some ''UP'', newStatus = ''DOWN'',
               changedAt = Some ''u1'', changeNumber = NaN\<rparr>,
         Some \<lparr>alertSiteName = ''lastStatus'', alertUrl = None, alertNewStatus = ''DOWN'',
               alertPreviousStatus = Some ''UP'', alertStatusCode = Some 503,
               alertResponseTime = Some 50, alertError = None, alertCheckedAt = ''t2''\<rparr>,
         example_state_polluted)
   \<and> updateMonitoringState ''lastStatus'' (example_seen ''UP'' ''t2'') ''u2''
        example_state_polluted
      = (None, None, example_state_polluted)"
  by (simp add: example_state_polluted_def prototype_update)
     (simp add: updateMonitoringState_def Let_def state_lookup_def inherited_functions_def
      truthy_on_prototype_def initial_state_def no_properties_def inherit_def
      write_result_def write_change_def change_event_def alert_for_def example_seen_def)

lemma polluted_prototype_initialize:
  "entries (initializeMonitoringState
      [\<lparr>name = ''lastStatus'', url = ''http://s''\<rparr>, \<lparr>name = ''lastError'', url = ''http://e''\<rparr>]
      example_state_polluted) ''lastStatus'' = None
   \<and> entries (initializeMonitoringState
      [\<lparr>name = ''lastStatus'', url = ''http://s''\<rparr>, \<lparr>name = ''lastError'', url = ''http://e''\<rparr>]
      example_state_polluted) ''lastError''
     = Some (fresh_state \<lparr>name = ''lastError'', url = ''http://e''\<rparr>)"
  by (simp add: example_state_polluted_def prototype_update)
     (simp add: initializeMonitoringState_def initialize_site_def state_lookup_def
      inherited_functions_def truthy_on_prototype_def initial_state_def no_properties_def)

section \<open>Initialisation\<close>

lemma init_site_keeps:
  "entries ms n = Some cur \<Longrightarrow> entries (initialize_site ms s) n = Some cur"
  by (auto simp: initialize_site_def lookup_falsy_iff)

lemma init_site_inherited:
  "onFunctions (initialize_site ms s) = onFunctions ms"
  "onPrototype (initialize_site ms s) = onPrototype ms"
  by (simp_all add: initialize_site_def)

lemma init_site_found:
  "state_lookup ms n \<noteq> Falsy \<Longrightarrow> state_lookup (initialize_site ms s) n \<noteq> Falsy"
  by (auto simp: lookup_falsy_iff init_site_inherited initialize_site_def split: if_splits)

lemma init_keeps:
  "entries ms n = Some cur \<Longrightarrow> entries (initializeMonitoringState sites ms) n = Some cur"
  unfolding initializeMonitoringState_def
proof (induction sites arbitrary: ms)
  case Nil
  then show ?case by simp
next
  case (Cons s sites)
  have "entries (initialize_site ms s) n = Some cur"
    using Cons.prems by (rule init_site_keeps)
  with Cons.IH [of "initialize_site ms s"] show ?case by simp
qed

lemma init_found:
  "state_lookup ms n \<noteq> Falsy \<Longrightarrow> state_lookup (initializeMonitoringState sites ms) n \<noteq> Falsy"
  unfolding initializeMonitoringState_def
proof (induction sites arbitrary: ms)
  case Nil
  then show ?case by simp
next
  case (Cons s sites)
  have "state_lookup (initialize_site ms s) n \<noteq> Falsy"
    using Cons.prems by (rule init_site_found)
  with Cons.IH [of "initialize_site ms s"] show ?case by simp
qed

lemma init_known:
  "\<forall>s \<in> set sites. state_lookup ms (name s) \<noteq> Falsy \<Longrightarrow>
     initializeMonitoringState sites ms = ms"
  unfolding initializeMonitoringState_def
  by (induction sites arbitrary: ms) (auto simp: initialize_site_def)

lemma init_seeds:
  "s \<in> set sites \<Longrightarrow> state_lookup ms (name s) = Falsy \<Longrightarrow>
     \<exists>st. entries (initializeMonitoringState sites ms) (name s) = Some st
        \<and> name st = name s \<and> lastStatus st = None \<and> changeCount st = 0
        \<and> lastCheckedAt st = None \<and> lastChangedAt st = None"
  unfolding initializeMonitoringState_def
proof (induction sites arbitrary: ms)
  case Nil
  then show ?case by simp
next
  case (Cons t sites)
  show ?case
  proof (cases "name t = name s")
    case True
    then have "entries (initialize_site ms t) (name s) = Some (fresh_state t)"
      using Cons.prems(2) by (simp add: initialize_site_def)
    with init_keeps [of "initialize_site ms t" "name s" "fresh_state t" sites]
    have "entries (foldl initialize_site (initialize_site ms t) sites) (name s)
            = Some (fresh_state t)"
      by (simp add: initializeMonitoringState_def)
    then show ?thesis using True by (simp add: fresh_state_def)
  next
    case False
    then have "s \<in> set sites" "state_lookup (initialize_site ms t) (name s) = Falsy"
      using Cons.prems
      by (auto simp: initialize_site_def lookup_falsy_iff)
    with Cons.IH [of "initialize_site ms t"] show ?thesis by simp
  qed
qed

lemma init_covers:
  "s \<in> set sites \<Longrightarrow> state_lookup (initializeMonitoringState sites ms) (name s) \<noteq> Falsy"
proof (cases "state_lookup ms (name s) = Falsy")
  case True
  assume "s \<in> set sites"
  with True init_seeds [of s sites ms] show ?thesis
    by (auto simp: lookup_falsy_iff)
next
  case False
  then show ?thesis by (rule init_found)
qed

text \<open>
  What holds of initialisation on every target list and every state: a second run
  changes nothing, every entry is kept as it is, and a target under whose name the lookup
  finds nothing gets an entry with status unknown and change count zero.
\<close>

lemma initialize_idempotent_keeps_seeds:
  "initializeMonitoringState sites (initializeMonitoringState sites ms)
     = initializeMonitoringState sites ms
   \<and> (\<forall>n cur. entries ms n = Some cur \<longrightarrow>
         entries (initializeMonitoringState sites ms) n = Some cur)
   \<and> (\<forall>s \<in> set sites. state_lookup ms (name s) = Falsy \<longrightarrow>
        (\<exists>st. entries (initializeMonitoringState sites ms) (name s) = Some st
           \<and> name st = name s \<and> lastStatus st = None \<and> changeCount st = 0))"
proof (intro conjI allI impI ballI)
  show "initializeMonitoringState sites (initializeMonitoringState sites ms)
          = initializeMonitoringState sites ms"
    by (rule init_known) (simp add: init_covers)
next
  fix n cur
  assume "entries ms n = Some cur"
  then show "entries (initializeMonitoringState sites ms) n = Some cur"
    by (rule init_keeps)
next
  fix s
  assume "s \<in> set sites" "state_lookup ms (name s) = Falsy"
  with init_seeds [of s sites ms]
  show "\<exists>st. entries (initializeMonitoringState sites ms) (name s) = Some st
           \<and> name st = name s \<and> lastStatus st = None \<and> changeCount st = 0"
    by blast
qed

text \<open>
  Site A has been seen UP and then DOWN (one change) when the registry is initialised
  again with sites A and B: the entry of A is kept, B is seeded.
\<close>

lemma initializeMonitoringState_example:
  "(\<exists>cur. entries example_state_changed ''A'' = Some cur
       \<and> lastStatus cur = Some ''DOWN'' \<and> changeCount cur = 1
       \<and> entries (initializeMonitoringState [example_site_A, example_site_B]
            example_state_changed) ''A'' = Some cur)
   \<and> (\<exists>st. entries (initializeMonitoringState [example_site_A, example_site_B]
            example_state_changed) ''B'' = Some st
       \<and> lastStatus st = None \<and> changeCount st = 0)"
  by (simp add: example_state_changed_def example_state_def initializeMonitoringState_def
      initialize_site_def state_lookup_def inherited_functions_def truthy_on_prototype_def
      initial_state_def no_properties_def example_site_A_def example_site_B_def
      fresh_state_def example_seen_def updateMonitoringState_def Let_def)

text \<open>
  Claim C5. The claim asks that initialisation be idempotent, keep the entries it finds,
  and seed every newly seen target with status unknown and change count zero. The first
  two hold on every target list. The test \<^verbatim>\<open>!monitoringState[site.name]\<close> is there for
  the third, and it misses the names under which the table inherits a member: with the
  targets A and \<^verbatim>\<open>constructor\<close> and the empty table, A is seeded and
  \<^verbatim>\<open>constructor\<close>, under which the lookup finds the function \<^verbatim>\<open>Object\<close>, gets no entry.
\<close>

theorem initialize_skips_inherited_name:
  "entries initial_state ''constructor'' = None
   \<and> entries (initializeMonitoringState [example_site_A, example_site_constructor]
        initial_state) ''A'' = Some (fresh_state example_site_A)
   \<and> entries (initializeMonitoringState [example_site_A, example_site_constructor]
        initial_state) ''constructor'' = None
   \<and> initializeMonitoringState [example_site_constructor] initial_state = initial_state"
  by (simp add: initializeMonitoringState_def initialize_site_def state_lookup_def
      inherited_functions_def truthy_on_prototype_def initial_state_def no_properties_def
      example_site_A_def example_site_constructor_def)

section \<open>The report of a cycle\<close>

lemma checkSite_status:
  "checkSite out start finish now = Inr r \<Longrightarrow> status r = ''UP'' \<or> status r = ''DOWN''"
  by (cases out) (auto simp: checkSite_def split: if_splits option.splits)

lemma settle_status:
  "status (result (settle t)) = ''UP'' \<or> status (result (settle t)) = ''DOWN''"
  by (cases t) (auto simp: settle_def probe_def dest: checkSite_status split: sum.splits)

lemma count_status_partition:
  "\<forall>r \<in> set rs. status (result r) = ''UP'' \<or> status (result r) = ''DOWN'' \<Longrightarrow>
     count_status ''UP'' rs + count_status ''DOWN'' rs = length rs"
  by (induction rs) (auto simp: count_status_def)

lemma cycle_results:
  "results (returned (performAutomaticMonitoring targets order stamp ms)) = map settle targets"
  by (simp add: performAutomaticMonitoring_def Let_def split: prod.splits)

lemma cycle_summary:
  "reportSummary (returned (performAutomaticMonitoring targets order stamp ms)) =
     \<lparr>total = length targets, up = count_status ''UP'' (map settle targets),
      down = count_status ''DOWN'' (map settle targets)\<rparr>"
  by (simp add: performAutomaticMonitoring_def Let_def split: prod.splits)

text \<open>
  Claim C7. In the report of every monitoring cycle, \<open>up + down = total\<close>, where total is
  the number of results, up the number of results of status UP and down the number of
  results of status DOWN.
\<close>

theorem cycle_up_plus_down:
  "up (reportSummary (returned (performAutomaticMonitoring targets order stamp ms)))
     + down (reportSummary (returned (performAutomaticMonitoring targets order stamp ms)))
   = total (reportSummary (returned (performAutomaticMonitoring targets order stamp ms)))
   \<and> total (reportSummary (returned (performAutomaticMonitoring targets order stamp ms)))
       = length (results (returned (performAutomaticMonitoring targets order stamp ms)))
   \<and> up (reportSummary (returned (performAutomaticMonitoring targets order stamp ms)))
       = length (filter (\<lambda>r. status (result r) = ''UP'')
           (results (returned (performAutomaticMonitoring targets order stamp ms))))
   \<and> down (reportSummary (returned (performAutomaticMonitoring targets order stamp ms)))
       = length (filter (\<lambda>r. status (result r) = ''DOWN'')
           (results (returned (performAutomaticMonitoring targets order stamp ms))))"
proof -
  have "\<forall>r \<in> set (map settle targets). status (result r) = ''UP'' \<or> status (result r) = ''DOWN''"
    by (auto simp: settle_status)
  from count_status_partition [OF this] show ?thesis
    by (simp add: cycle_results cycle_summary) (simp add: count_status_def)
qed

text \<open>
  The scenario of the specification: A answers 200 after 50 ms, B times out after
  5000 ms; the report counts two sites, one up, one down.
\<close>

theorem cycle_up_plus_down_witness:
  "reportSummary (returned (performAutomaticMonitoring
       [(example_site_A, example_run_ok), (example_site_B, example_run_timeout)] [0, 1]
       ''2026-01-21T10:30:50.002Z''
       (initializeMonitoringState [example_site_A, example_site_B] initial_state)))
    = \<lparr>total = 2, up = 1, down = 1\<rparr>"
proof -
  let ?rep = "returned (performAutomaticMonitoring
       [(example_site_A, example_run_ok), (example_site_B, example_run_timeout)] [0, 1]
       ''2026-01-21T10:30:50.002Z''
       (initializeMonitoringState [example_site_A, example_site_B] initial_state))"
  have "up (reportSummary ?rep) = 1"
    by (simp add: cycle_summary count_status_def settle_def probe_def checkSite_def
        example_run_ok_def example_run_timeout_def)
  moreover have "total (reportSummary ?rep) = 2"
    by (simp add: cycle_summary)
  moreover note cycle_up_plus_down
    [of "[(example_site_A, example_run_ok), (example_site_B, example_run_timeout)]" "[0, 1]"
        "''2026-01-21T10:30:50.002Z''"
        "initializeMonitoringState [example_site_A, example_site_B] initial_state"]
  ultimately have "down (reportSummary ?rep) = 1"
    by simp
  with \<open>up (reportSummary ?rep) = 1\<close> \<open>total (reportSummary ?rep) = 2\<close>
  show ?thesis by (cases "reportSummary ?rep") simp
qed

text \<open>
  After that cycle, run on the table start-up built, the tracker shows A up and B down
  with the time-out as its last error, and no change is reported: both sites were unknown.
\<close>

lemma scenario_cycle_state:
  "map_option (\<lambda>st. (lastStatus st, lastStatusCode st, lastError st, changeCount st))
     (entries (state_after (performAutomaticMonitoring
        [(example_site_A, example_run_ok), (example_site_B, example_run_timeout)] [0, 1]
        ''2026-01-21T10:30:50.002Z''
        (initializeMonitoringState [example_site_A, example_site_B] initial_state))) ''A'')
     = Some (Some ''UP'', Some 200, None, 0)
   \<and> map_option (\<lambda>st. (lastStatus st, lastStatusCode st, lastError st, changeCount st))
     (entries (state_after (performAutomaticMonitoring
        [(example_site_A, example_run_ok), (example_site_B, example_run_timeout)] [0, 1]
        ''2026-01-21T10:30:50.002Z''
        (initializeMonitoringState [example_site_A, example_site_B] initial_state))) ''B'')
     = Some (Some ''DOWN'', None, Some ''Request timeout (5 seconds)'', 0)
   \<and> stateChanges (returned (performAutomaticMonitoring
        [(example_site_A, example_run_ok), (example_site_B, example_run_timeout)] [0, 1]
        ''2026-01-21T10:30:50.002Z''
        (initializeMonitoringState [example_site_A, example_site_B] initial_state))) = []"
  by (simp add: performAutomaticMonitoring_def deliver_def probe_def checkSite_def
      updateMonitoringState_def Let_def initializeMonitoringState_def initialize_site_def
      state_lookup_def inherited_functions_def truthy_on_prototype_def initial_state_def
      no_properties_def fresh_state_def example_site_A_def example_site_B_def
      example_run_ok_def example_run_timeout_def probe_failed_def)

text \<open>
  A later cycle in which A answers 503: the change is reported and an alert is sent.
\<close>

lemma scenario_change_cycle:
  "stateChanges (returned (performAutomaticMonitoring [(example_site_A, example_run_503)] [0]
        ''2026-01-21T10:35:46.000Z''
        (state_after (performAutomaticMonitoring [(example_site_A, example_run_ok)] [0]
           ''2026-01-21T10:30:46.000Z'' example_state))))
     = [\<lparr>siteName = ''A'', previousStatus = Some ''UP'', newStatus = ''DOWN'',
         changedAt = Some ''2026-01-21T10:35:45.041Z'', changeNumber = Count 1\<rparr>]
   \<and> alert_sent (performAutomaticMonitoring [(example_site_A, example_run_503)] [0]
        ''2026-01-21T10:35:46.000Z''
        (state_after (performAutomaticMonitoring [(example_site_A, example_run_ok)] [0]
           ''2026-01-21T10:30:46.000Z'' example_state)))
     = [\<lparr>alertSiteName = ''A'', alertUrl = Some ''http://ok'', alertNewStatus = ''DOWN'',
         alertPreviousStatus = Some ''UP'', alertStatusCode = Some 503,
         alertResponseTime = Some 40, alertError = None,
         alertCheckedAt = ''2026-01-21T10:35:45.040Z''\<rparr>]"
  by (simp add: performAutomaticMonitoring_def deliver_def probe_def checkSite_def
      updateMonitoringState_def Let_def example_state_def initializeMonitoringState_def
      initialize_site_def state_lookup_def inherited_functions_def truthy_on_prototype_def
      initial_state_def no_properties_def fresh_state_def change_event_def alert_for_def
      example_site_A_def example_run_ok_def example_run_503_def)

section \<open>A probe that fails inside a cycle\<close>

text \<open>
  Claim C4, as the code has it. A cycle always returns a report, with one result per
  target, so that total is the number of targets whatever the probes do. A target whose
  probe is rejected gets a DOWN result that carries the message of what was thrown and
  the time of the handler; the result has no error type, status code or response time.
\<close>

theorem cycle_isolates_failures:
  "length (results (returned (performAutomaticMonitoring targets order stamp ms))) = length targets
   \<and> total (reportSummary (returned (performAutomaticMonitoring targets order stamp ms)))
       = length targets
   \<and> (\<forall>i err. i < length targets \<and> probe (snd (targets ! i)) = Inl err \<longrightarrow>
        results (returned (performAutomaticMonitoring targets order stamp ms)) ! i
          = \<lparr>name = name (fst (targets ! i)), url = url (fst (targets ! i)),
             result = \<lparr>status = ''DOWN'', statusCode = None, responseTime = None,
                       checkedAt = handlerClock (snd (targets ! i)), error = message err,
                       errorType = None\<rparr>\<rparr>)"
  by (auto simp: cycle_results cycle_summary settle_def split: prod.splits)

text \<open>Site A answers 200 and the probe of site B throws: two results, the second DOWN.\<close>

theorem cycle_isolates_failures_witness:
  "total (reportSummary (returned (performAutomaticMonitoring
       [(example_site_A, example_run_ok), (example_site_B, example_run_thrown)] [1, 0]
       ''2026-01-21T10:30:46.000Z'' example_state))) = 2
   \<and> results (returned (performAutomaticMonitoring
       [(example_site_A, example_run_ok), (example_site_B, example_run_thrown)] [1, 0]
       ''2026-01-21T10:30:46.000Z'' example_state)) ! 1
      = \<lparr>name = ''B'', url = ''http://timeout'',
         result = \<lparr>status = ''DOWN'', statusCode = None, responseTime = None,
                   checkedAt = ''2026-01-21T10:30:45.004Z'',
                   error = Some ''Cannot read properties of undefined (reading 'includes')'',
                   errorType = None\<rparr>\<rparr>"
proof -
  have h: "probe example_run_thrown = Inl includes_of_undefined"
    by (simp add: probe_def example_run_thrown_def checkSite_def)
  from cycle_isolates_failures
         [of "[(example_site_A, example_run_ok), (example_site_B, example_run_thrown)]" "[1, 0]"
             "''2026-01-21T10:30:46.000Z''" example_state]
  have tot: "total (reportSummary (returned (performAutomaticMonitoring
       [(example_site_A, example_run_ok), (example_site_B, example_run_thrown)] [1, 0]
       ''2026-01-21T10:30:46.000Z'' example_state))) = 2"
    and each: "\<forall>i err. i < length [(example_site_A, example_run_ok), (example_site_B, example_run_thrown)]
         \<and> probe (snd ([(example_site_A, example_run_ok), (example_site_B, example_run_thrown)] ! i))
             = Inl err \<longrightarrow>
        results (returned (performAutomaticMonitoring
          [(example_site_A, example_run_ok), (example_site_B, example_run_thrown)] [1, 0]
          ''2026-01-21T10:30:46.000Z'' example_state)) ! i
          = \<lparr>name = name (fst ([(example_site_A, example_run_ok),
                                 (example_site_B, example_run_thrown)] ! i)),
             url = url (fst ([(example_site_A, example_run_ok),
                               (example_site_B, example_run_thrown)] ! i)),
             result = \<lparr>status = ''DOWN'', statusCode = None, responseTime = None,
                       checkedAt = handlerClock (snd ([(example_site_A, example_run_ok),
                                     (example_site_B, example_run_thrown)] ! i)),
                       error = message err, errorType = None\<rparr>\<rparr>"
    by simp_all
  from each [rule_format, of 1 includes_of_undefined] h tot
  show ?thesis
    by (simp add: example_site_B_def example_run_thrown_def includes_of_undefined_def)
qed

text \<open>
  The claim as the specification states it asks for the error kind \<^verbatim>\<open>Unknown\<close> on such
  a result. The result the \<^verbatim>\<open>.catch\<close> handler builds for a probe that throws has no
  error type.
\<close>

theorem cycle_failure_has_no_error_type:
  "map (\<lambda>r. (name r, status (result r), errorType (result r)))
     (results (returned (performAutomaticMonitoring
        [(example_site_B, example_run_thrown)] [0] ''2026-01-21T10:30:46.000Z'' example_state)))
    = [(''B'', ''DOWN'', None)]
   \<and> errorType (result (hd (results (returned (performAutomaticMonitoring
        [(example_site_B, example_run_thrown)] [0] ''2026-01-21T10:30:46.000Z'' example_state)))))
      \<noteq> Some ''Unknown''"
  by (simp add: cycle_results settle_def probe_def checkSite_def example_run_thrown_def
      example_site_B_def)

section \<open>The manual check\<close>

lemma promise_all_resolved:
  "\<forall>p \<in> set ps. \<not> isl p \<Longrightarrow> promise_all ps = Inr (map projr ps)"
proof (induction ps)
  case Nil
  then show ?case by simp
next
  case (Cons p ps)
  then show ?case by (cases p) auto
qed

lemma promise_all_rejected:
  "\<exists>p \<in> set ps. isl p \<Longrightarrow> \<exists>e. promise_all ps = Inl e"
proof (induction ps)
  case Nil
  then show ?case by simp
next
  case (Cons p ps)
  show ?case
  proof (cases p)
    case (Inl e)
    then show ?thesis by simp
  next
    case (Inr x)
    with Cons.prems have "\<exists>p \<in> set ps. isl p" by auto
    from Cons.IH [OF this] Inr show ?thesis by auto
  qed
qed

lemma check_one_resolved: "\<not> isl (probe (snd t)) \<Longrightarrow> check_one t = Inr (settle t)"
  by (cases t) (auto simp: check_one_def settle_def split: sum.splits)

lemma check_one_isl: "isl (check_one t) = isl (probe (snd t))"
  by (cases t) (auto simp: check_one_def split: sum.splits)

text \<open>
  Claim C8, as the code has it. The manual check is a handler of its own that calls the
  same probe. For a target list that is not empty and whose probes all return, it answers
  with the very results and the very total, up and down of the scheduled cycle. It answers
  an empty target list with an error (400) where the cycle reports zero sites, and it
  fails as a whole (500) when a probe is rejected, where the cycle records a DOWN result.
\<close>

theorem manual_check_and_cycle:
  "(targets = [] \<longrightarrow>
      returned (api_check targets stamp ms) = Json400 ''No sites configured in sites.json'')
   \<and> (targets \<noteq> [] \<and> (\<forall>t \<in> set targets. \<not> isl (probe (snd t))) \<longrightarrow>
      returned (api_check targets stamp ms)
        = Json200 stamp
            (reportSummary (returned (performAutomaticMonitoring targets order stamp ms)))
            (results (returned (performAutomaticMonitoring targets order stamp ms))))
   \<and> (targets \<noteq> [] \<and> (\<exists>t \<in> set targets. isl (probe (snd t))) \<longrightarrow>
      (\<exists>m. returned (api_check targets stamp ms) = Json500 m))"
proof (intro conjI impI)
  assume "targets = []"
  then show "returned (api_check targets stamp ms) = Json400 ''No sites configured in sites.json''"
    by (simp add: api_check_def)
next
  assume a: "targets \<noteq> [] \<and> (\<forall>t \<in> set targets. \<not> isl (probe (snd t)))"
  then have "\<forall>p \<in> set (map check_one targets). \<not> isl p"
    by (simp add: check_one_isl)
  from promise_all_resolved [OF this]
  have "promise_all (map check_one targets) = Inr (map settle targets)"
    using a by (simp add: check_one_resolved cong: map_cong)
  with a show "returned (api_check targets stamp ms)
        = Json200 stamp
            (reportSummary (returned (performAutomaticMonitoring targets order stamp ms)))
            (results (returned (performAutomaticMonitoring targets order stamp ms)))"
    by (simp add: api_check_def cycle_results cycle_summary)
next
  assume a: "targets \<noteq> [] \<and> (\<exists>t \<in> set targets. isl (probe (snd t)))"
  then have "\<exists>p \<in> set (map check_one targets). isl p"
    by (simp add: check_one_isl)
  from promise_all_rejected [OF this] obtain e where "promise_all (map check_one targets) = Inl e"
    by blast
  with a show "\<exists>m. returned (api_check targets stamp ms) = Json500 m"
    by (simp add: api_check_def)
qed

text \<open>The scenario: both paths report two sites, one up, one down.\<close>

theorem manual_check_and_cycle_witness:
  "returned (api_check [(example_site_A, example_run_ok), (example_site_B, example_run_timeout)]
       ''2026-01-21T10:30:50.002Z'' example_state)
    = Json200 ''2026-01-21T10:30:50.002Z''
        (reportSummary (returned (performAutomaticMonitoring
           [(example_site_A, example_run_ok), (example_site_B, example_run_timeout)] [0, 1]
           ''2026-01-21T10:30:50.002Z'' example_state)))
        (results (returned (performAutomaticMonitoring
           [(example_site_A, example_run_ok), (example_site_B, example_run_timeout)] [0, 1]
           ''2026-01-21T10:30:50.002Z'' example_state)))"
proof -
  have "\<forall>t \<in> set [(example_site_A, example_run_ok), (example_site_B, example_run_timeout)].
          \<not> isl (probe (snd t))"
    by (simp add: probe_def checkSite_def example_run_ok_def example_run_timeout_def)
  with manual_check_and_cycle
         [of "[(example_site_A, example_run_ok), (example_site_B, example_run_timeout)]"
             "''2026-01-21T10:30:50.002Z''" example_state "[0, 1]"]
  show ?thesis by simp
qed

text \<open>
  The claim as the specification states it has both triggers run one path with the same
  results and summary. With no site configured the cycle reports zero sites and the manual
  check answers with an error; and when site A answers 200, the cycle records UP in the
  table and the manual check leaves the status unknown.
\<close>

theorem manual_check_is_a_separate_path:
  "returned (api_check [] ''2026-01-21T10:30:50.002Z'' example_state)
     = Json400 ''No sites configured in sites.json''
   \<and> reportSummary (returned (performAutomaticMonitoring [] [] ''2026-01-21T10:30:50.002Z''
        example_state)) = \<lparr>total = 0, up = 0, down = 0\<rparr>
   \<and> map_option lastStatus (entries (state_after (performAutomaticMonitoring
        [(example_site_A, example_run_ok)] [0] ''2026-01-21T10:30:50.002Z'' example_state)) ''A'')
       = Some (Some ''UP'')
   \<and> map_option lastStatus (entries (state_after (api_check
        [(example_site_A, example_run_ok)] ''2026-01-21T10:30:50.002Z'' example_state)) ''A'')
       = Some None"
  by (simp add: api_check_def performAutomaticMonitoring_def count_status_def deliver_def
      probe_def checkSite_def updateMonitoringState_def Let_def check_one_def
      example_state_def initializeMonitoringState_def initialize_site_def fresh_state_def
      state_lookup_def inherited_functions_def truthy_on_prototype_def initial_state_def
      no_properties_def example_site_A_def example_run_ok_def)

text \<open>A manual check in which the probe of site B throws: the whole check fails.\<close>

lemma manual_check_rejected_example:
  "returned (api_check [(example_site_A, example_run_ok), (example_site_B, example_run_thrown)]
       ''2026-01-21T10:30:46.000Z'' example_state)
     = Json500 (Some ''Cannot read properties of undefined (reading 'includes')'')"
  by (simp add: api_check_def check_one_def probe_def checkSite_def example_run_ok_def
      example_run_thrown_def includes_of_undefined_def)

text \<open>
  Claim C9. The manual check leaves the table of the state tracker as it found it (every
  site's status, change count and time of last change) and sends no alert; its answer
  carries no change event.
\<close>

theorem manual_check_leaves_state:
  "state_after (api_check targets stamp ms) = ms \<and> alert_sent (api_check targets stamp ms) = []"
  by (simp add: api_check_def split: sum.splits)

text \<open>A manual check of site A, which answers 200, while the table has A as unknown.\<close>

theorem manual_check_leaves_state_witness:
  "state_after (api_check [(example_site_A, example_run_ok)] ''2026-01-21T10:30:50.002Z''
      example_state) = example_state
   \<and> alert_sent (api_check [(example_site_A, example_run_ok)] ''2026-01-21T10:30:50.002Z''
      example_state) = []"
  using manual_check_leaves_state
    [of "[(example_site_A, example_run_ok)]" "''2026-01-21T10:30:50.002Z''" example_state]
  by simp

end
